theory Spec2Isabelle
  imports Main "HOL-Library.Char_ord" "HOL-Library.List_Lexorder"
begin

section \<open>The host registry (storm/storm.go)\<close>

subsection \<open>Data\<close>

text \<open>
  Modelled from the spec: the declaration of \<^verbatim>\<open>tobab.Host\<close> is not among the sources.
  The spec gives a host record the fields Hostname (the primary key), Backend and Type;
  the code reads exactly these three (\<^verbatim>\<open>conf.Hostname\<close>, \<^verbatim>\<open>conf.Backend\<close>,
  \<^verbatim>\<open>conf.Type\<close>). The Go zero value of the struct has every string empty.
\<close>

record Host =
  Hostname :: string
  Backend :: string
  Type :: string

definition zero_Host :: Host where
  "zero_Host = \<lparr>Hostname = [], Backend = [], Type = []\<rparr>"

text \<open>
  Values of Go's \<^verbatim>\<open>error\<close> interface that the modelled code can produce: three sentinel
  errors of the storm library, the error of \<^verbatim>\<open>url.Parse\<close> with its cause, and any other
  error, with its message, that a collaborator hands back.
\<close>

datatype url_error =
    InvalidControlCharacter
  | MissingProtocolScheme
  | FirstPathSegmentColon
  | MissingBracket
  | InvalidPort string
  | InvalidUserinfo
  | EscapeError string
  | InvalidHostError string

datatype error =
    ErrNotFound
  | ErrZeroID
  | ErrStructPtrNeeded
  | UrlError url_error
  | OtherError string

subsection \<open>The storage engine\<close>

text \<open>
  \<^verbatim>\<open>storm.DB\<close> belongs to the library github.com/asdine/storm, which the repository
  imports; the spec describes it as a collaborator providing keyed get, put, delete and
  scan. One bucket holds the Host records under their id, the Hostname. The bucket is a
  list of key/value pairs in ascending byte order of the keys, which is the order a scan
  of the underlying B+tree returns; strings are compared as Go compares byte slices.

  \<^item> \<^verbatim>\<open>Save\<close> refuses a zero id and otherwise puts the record under its id: a record
    already stored under that id is replaced.
  \<^item> \<^verbatim>\<open>One("Hostname", v, &h)\<close> fills \<^verbatim>\<open>h\<close> with the record stored under \<open>v\<close>, or leaves
    \<^verbatim>\<open>h\<close> as it was and returns ErrNotFound.
  \<^item> \<^verbatim>\<open>All\<close> returns every record of the bucket, the empty slice when there is none.
  \<^item> \<^verbatim>\<open>DeleteStruct\<close> needs a pointer to a struct and removes the record stored under
    the id of the struct it is given, or returns ErrNotFound.
\<close>

type_synonym storm_DB = "(string \<times> Host) list"

fun bucket_Put :: "string \<Rightarrow> Host \<Rightarrow> storm_DB \<Rightarrow> storm_DB" where
  "bucket_Put k v [] = [(k, v)]"
| "bucket_Put k v ((k', v') # kvs) =
     (if k = k' then (k, v) # kvs
      else if k < k' then (k, v) # (k', v') # kvs
      else (k', v') # bucket_Put k v kvs)"

fun bucket_Get :: "storm_DB \<Rightarrow> string \<Rightarrow> Host option" where
  "bucket_Get [] k = None"
| "bucket_Get ((k', v') # kvs) k = (if k = k' then Some v' else bucket_Get kvs k)"

fun bucket_Delete :: "string \<Rightarrow> storm_DB \<Rightarrow> storm_DB" where
  "bucket_Delete k [] = []"
| "bucket_Delete k ((k', v') # kvs) =
     (if k = k' then kvs else (k', v') # bucket_Delete k kvs)"

definition storm_Save :: "storm_DB \<Rightarrow> Host \<Rightarrow> error option \<times> storm_DB" where
  "storm_Save d h =
     (if Hostname h = [] then (Some ErrZeroID, d)
      else (None, bucket_Put (Hostname h) h d))"

definition storm_One :: "storm_DB \<Rightarrow> string \<Rightarrow> Host \<Rightarrow> Host \<times> error option" where
  "storm_One d v to =
     (case bucket_Get d v of
        None \<Rightarrow> (to, Some ErrNotFound)
      | Some h \<Rightarrow> (h, None))"

definition storm_All :: "storm_DB \<Rightarrow> Host list \<times> error option" where
  "storm_All d = (map snd d, None)"

definition storm_DeleteStruct :: "storm_DB \<Rightarrow> Host option \<Rightarrow> error option \<times> storm_DB" where
  "storm_DeleteStruct d p =
     (case p of
        None \<Rightarrow> (Some ErrStructPtrNeeded, d)
      | Some h \<Rightarrow>
          (case bucket_Get d (Hostname h) of
             None \<Rightarrow> (Some ErrNotFound, d)
           | Some _ \<Rightarrow> (None, bucket_Delete (Hostname h) d)))"

text \<open>The bucket as the store keeps it: keys strictly ascending, none of them empty.\<close>

definition bucket_ok :: "storm_DB \<Rightarrow> bool" where
  "bucket_ok d \<longleftrightarrow> sorted_wrt (<) (map fst d) \<and> [] \<notin> set (map fst d)"

subsection \<open>The wrapper\<close>

text \<open>
  \<^verbatim>\<open>type stormDB struct { db *storm.DB }\<close>. A method that writes returns the error
  together with the new state of the database. A Go pointer result is an option:
  \<open>None\<close> is \<^verbatim>\<open>nil\<close>, \<open>Some h\<close> is a pointer to a struct holding \<open>h\<close>.
\<close>

record stormDB =
  db :: storm_DB

definition AddHost :: "stormDB \<Rightarrow> Host \<Rightarrow> error option \<times> stormDB" where
  "AddHost s h = (case storm_Save (db s) h of (err, d) \<Rightarrow> (err, s\<lparr>db := d\<rparr>))"

definition GetHost :: "stormDB \<Rightarrow> string \<Rightarrow> Host option \<times> error option" where
  "GetHost s hostname =
     (case storm_One (db s) hostname zero_Host of (h, err) \<Rightarrow> (Some h, err))"

definition GetHosts :: "stormDB \<Rightarrow> Host list \<times> error option" where
  "GetHosts s = storm_All (db s)"

definition DeleteHost :: "stormDB \<Rightarrow> string \<Rightarrow> error option \<times> stormDB" where
  "DeleteHost s hostname =
     (case GetHost s hostname of
        (h, Some err) \<Rightarrow> (Some err, s)
      | (h, None) \<Rightarrow>
          (case storm_DeleteStruct (db s) h of (err, d) \<Rightarrow> (err, s\<lparr>db := d\<rparr>)))"

text \<open>The hostnames registered in a database.\<close>

definition hostnames :: "stormDB \<Rightarrow> string list" where
  "hostnames s = map fst (db s)"

section \<open>Backend URLs (net/url, as generateProxy uses it)\<close>

text \<open>
  \<^verbatim>\<open>generateProxy\<close> calls \<^verbatim>\<open>url.Parse\<close> and reads \<^verbatim>\<open>Scheme\<close>, \<^verbatim>\<open>Host\<close> and
  \<^verbatim>\<open>Hostname()\<close> of the result. These belong to Go's standard library, not to the
  repository; what follows is the library's algorithm, function by function and under the
  library's names, for the call \<^verbatim>\<open>parse(u, false)\<close> that \<^verbatim>\<open>url.Parse\<close> makes. A loop
  over the bytes of a string is a recursive function (\<open>getScheme_from\<close> for the loop of
  \<^verbatim>\<open>getScheme\<close>; \<open>unescape_check\<close> and \<open>unescape_write\<close> for the two passes of
  \<^verbatim>\<open>unescape\<close>). A string is a list of bytes. The fields \<^verbatim>\<open>RawPath\<close>,
  \<^verbatim>\<open>RawFragment\<close> and \<^verbatim>\<open>OmitHost\<close>, which only record how the input was spelled and
  which the program never reads, are left out.
\<close>

subsection \<open>Helpers of package strings\<close>

definition HasPrefix :: "string \<Rightarrow> string \<Rightarrow> bool" where
  "HasPrefix s p \<longleftrightarrow> take (length p) s = p"

definition HasSuffix :: "string \<Rightarrow> string \<Rightarrow> bool" where
  "HasSuffix s p \<longleftrightarrow> length p \<le> length s \<and> drop (length s - length p) s = p"

fun Index_from :: "nat \<Rightarrow> string \<Rightarrow> string \<Rightarrow> nat option" where
  "Index_from i [] sep = (if sep = [] then Some i else None)"
| "Index_from i (c # cs) sep =
     (if HasPrefix (c # cs) sep then Some i else Index_from (Suc i) cs sep)"

definition Index :: "string \<Rightarrow> string \<Rightarrow> nat option" where
  "Index s sep = Index_from 0 s sep"

definition LastIndexByte :: "string \<Rightarrow> char \<Rightarrow> nat option" where
  "LastIndexByte s c =
     (if c \<in> set s then Some (length s - Suc (length (takeWhile (\<lambda>x. x \<noteq> c) (rev s))))
      else None)"

definition Cut :: "string \<Rightarrow> char \<Rightarrow> string \<times> string" where
  "Cut s sep =
     (if sep \<in> set s
      then (takeWhile (\<lambda>x. x \<noteq> sep) s, tl (dropWhile (\<lambda>x. x \<noteq> sep) s))
      else (s, []))"

text \<open>The byte \<open>c\<close> lies in the range from \<open>lo\<close> to \<open>hi\<close>, both included.\<close>

definition within :: "char \<Rightarrow> char \<Rightarrow> char \<Rightarrow> bool" where
  "within lo hi c \<longleftrightarrow> lo \<le> c \<and> c \<le> hi"

text \<open>
  \<^verbatim>\<open>ToLower\<close> is applied to a scheme only, which \<^verbatim>\<open>getScheme\<close> has found to consist of
  ASCII letters, digits and the bytes \<open>+\<close>, \<open>-\<close> and \<open>.\<close>: lowering the ASCII capitals is
  all it does there.
\<close>

definition ToLower :: "string \<Rightarrow> string" where
  "ToLower s =
     map (\<lambda>c. if within CHR ''A'' CHR ''Z'' c then char_of (of_char c + (32::nat)) else c) s"

subsection \<open>Parsing\<close>

datatype encoding =
    encodePath
  | encodePathSegment
  | encodeHost
  | encodeZone
  | encodeUserPassword
  | encodeQueryComponent
  | encodeFragment

record Userinfo =
  username :: string
  password :: string
  passwordSet :: bool

record URL =
  Scheme :: string
  Opaque :: string
  User :: "Userinfo option"
  Host :: string
  Path :: string
  ForceQuery :: bool
  RawQuery :: string
  Fragment :: string

definition zero_URL :: URL where
  "zero_URL = \<lparr>Scheme = [], Opaque = [], User = None, Host = [], Path = [],
     ForceQuery = False, RawQuery = [], Fragment = []\<rparr>"

definition isalpha :: "char \<Rightarrow> bool" where
  "isalpha c \<longleftrightarrow> within CHR ''a'' CHR ''z'' c \<or> within CHR ''A'' CHR ''Z'' c"

definition isdigit :: "char \<Rightarrow> bool" where
  "isdigit c \<longleftrightarrow> within CHR ''0'' CHR ''9'' c"

definition ishex :: "char \<Rightarrow> bool" where
  "ishex c \<longleftrightarrow> isdigit c \<or> within CHR ''a'' CHR ''f'' c \<or> within CHR ''A'' CHR ''F'' c"

definition unhex :: "char \<Rightarrow> nat" where
  "unhex c =
     (if isdigit c then of_char c - of_char CHR ''0''
      else if within CHR ''a'' CHR ''f'' c then of_char c - of_char CHR ''a'' + 10
      else if within CHR ''A'' CHR ''F'' c then of_char c - of_char CHR ''A'' + 10
      else 0)"

definition stringContainsCTLByte :: "string \<Rightarrow> bool" where
  "stringContainsCTLByte s \<longleftrightarrow> (\<exists>b \<in> set s. b < CHR 0x20 \<or> b = CHR 0x7F)"

text \<open>
  \<^verbatim>\<open>shouldEscape(c, encodeHost)\<close>: letters, digits, the sub-delimiters, colon, brackets,
  angle brackets, the double quote and the unreserved marks may stand in a host as they
  are.
\<close>

definition shouldEscape_encodeHost :: "char \<Rightarrow> bool" where
  "shouldEscape_encodeHost c \<longleftrightarrow>
     \<not> (isalpha c \<or> isdigit c
        \<or> c \<in> set ''!$&'' \<or> c = CHR 0x27 \<or> c \<in> set ''()*+,;=:[]<>'' \<or> c = CHR 0x22
        \<or> c \<in> set ''-_.~'')"

fun unescape_check :: "encoding \<Rightarrow> string \<Rightarrow> url_error option" where
  "unescape_check mode [] = None"
| "unescape_check mode (c # cs) =
     (if c = CHR ''%'' then
        (case cs of
           a # b # rest \<Rightarrow>
             if \<not> ishex a \<or> \<not> ishex b then Some (EscapeError [c, a, b])
             else if mode = encodeHost \<and> unhex a < 8 \<and> [c, a, b] \<noteq> ''%25''
               then Some (EscapeError [c, a, b])
             else if mode = encodeZone \<and> [c, a, b] \<noteq> ''%25''
                 \<and> char_of (unhex a * 16 + unhex b) \<noteq> CHR '' ''
                 \<and> shouldEscape_encodeHost (char_of (unhex a * 16 + unhex b))
               then Some (EscapeError [c, a, b])
             else unescape_check mode rest
         | _ \<Rightarrow> Some (EscapeError (c # cs)))
      else if c = CHR ''+'' then unescape_check mode cs
      else if (mode = encodeHost \<or> mode = encodeZone) \<and> c < CHR 0x80
              \<and> shouldEscape_encodeHost c
        then Some (InvalidHostError [c])
      else unescape_check mode cs)"

fun unescape_write :: "encoding \<Rightarrow> string \<Rightarrow> string" where
  "unescape_write mode [] = []"
| "unescape_write mode (c # cs) =
     (if c = CHR ''%'' then
        (case cs of
           a # b # rest \<Rightarrow> char_of (unhex a * 16 + unhex b) # unescape_write mode rest
         | _ \<Rightarrow> [])
      else if c = CHR ''+'' then
        (if mode = encodeQueryComponent then CHR '' '' else CHR ''+'') # unescape_write mode cs
      else c # unescape_write mode cs)"

definition unescape :: "string \<Rightarrow> encoding \<Rightarrow> url_error + string" where
  "unescape s mode =
     (case unescape_check mode s of
        Some e \<Rightarrow> Inl e
      | None \<Rightarrow> Inr (unescape_write mode s))"

fun getScheme_from :: "nat \<Rightarrow> string \<Rightarrow> string \<Rightarrow> url_error + string \<times> string" where
  "getScheme_from i rawURL [] = Inr ([], rawURL)"
| "getScheme_from i rawURL (c # cs) =
     (if isalpha c then getScheme_from (Suc i) rawURL cs
      else if isdigit c \<or> c = CHR ''+'' \<or> c = CHR ''-'' \<or> c = CHR ''.'' then
        (if i = 0 then Inr ([], rawURL) else getScheme_from (Suc i) rawURL cs)
      else if c = CHR '':'' then
        (if i = 0 then Inl MissingProtocolScheme else Inr (take i rawURL, cs))
      else Inr ([], rawURL))"

definition getScheme :: "string \<Rightarrow> url_error + string \<times> string" where
  "getScheme rawURL = getScheme_from 0 rawURL rawURL"

definition validOptionalPort :: "string \<Rightarrow> bool" where
  "validOptionalPort port \<longleftrightarrow>
     (case port of
        [] \<Rightarrow> True
      | c # ds \<Rightarrow> c = CHR '':'' \<and> (\<forall>b \<in> set ds. \<not> (b < CHR ''0'' \<or> b > CHR ''9'')))"

definition validUserinfo :: "string \<Rightarrow> bool" where
  "validUserinfo s \<longleftrightarrow>
     (\<forall>r \<in> set s. isalpha r \<or> isdigit r \<or> r \<in> set ''-._:~!$&'' \<or> r = CHR 0x27
        \<or> r \<in> set ''()*+,;=%@'')"

definition parseHost :: "string \<Rightarrow> url_error + string" where
  "parseHost host =
     (if HasPrefix host ''['' then
        (case LastIndexByte host CHR '']'' of
           None \<Rightarrow> Inl MissingBracket
         | Some i \<Rightarrow>
             if \<not> validOptionalPort (drop (Suc i) host) then Inl (InvalidPort (drop (Suc i) host))
             else
               (case Index (take i host) ''%25'' of
                  Some zone \<Rightarrow>
                    (case unescape (take zone host) encodeHost of
                       Inl e \<Rightarrow> Inl e
                     | Inr host1 \<Rightarrow>
                         (case unescape (drop zone (take i host)) encodeZone of
                            Inl e \<Rightarrow> Inl e
                          | Inr host2 \<Rightarrow>
                              (case unescape (drop i host) encodeHost of
                                 Inl e \<Rightarrow> Inl e
                               | Inr host3 \<Rightarrow> Inr (host1 @ host2 @ host3))))
                | None \<Rightarrow> unescape host encodeHost))
      else
        (case LastIndexByte host CHR '':'' of
           Some i \<Rightarrow>
             if \<not> validOptionalPort (drop i host) then Inl (InvalidPort (drop i host))
             else unescape host encodeHost
         | None \<Rightarrow> unescape host encodeHost))"

definition parseAuthority :: "string \<Rightarrow> url_error + Userinfo option \<times> string" where
  "parseAuthority authority =
     (let i = LastIndexByte authority CHR ''@'' in
      case parseHost (case i of None \<Rightarrow> authority | Some i \<Rightarrow> drop (Suc i) authority) of
        Inl e \<Rightarrow> Inl e
      | Inr host \<Rightarrow>
          (case i of
             None \<Rightarrow> Inr (None, host)
           | Some i \<Rightarrow>
               (let userinfo = take i authority in
                if \<not> validUserinfo userinfo then Inl InvalidUserinfo
                else if CHR '':'' \<notin> set userinfo then
                  (case unescape userinfo encodeUserPassword of
                     Inl e \<Rightarrow> Inl e
                   | Inr u \<Rightarrow>
                       Inr (Some \<lparr>username = u, password = [], passwordSet = False\<rparr>, host))
                else
                  (case Cut userinfo CHR '':'' of
                     (un, pw) \<Rightarrow>
                       (case unescape un encodeUserPassword of
                          Inl e \<Rightarrow> Inl e
                        | Inr u \<Rightarrow>
                            (case unescape pw encodeUserPassword of
                               Inl e \<Rightarrow> Inl e
                             | Inr p \<Rightarrow>
                                 Inr (Some \<lparr>username = u, password = p, passwordSet = True\<rparr>,
                                      host)))))))"

definition setPath :: "URL \<Rightarrow> string \<Rightarrow> url_error + URL" where
  "setPath u p =
     (case unescape p encodePath of
        Inl e \<Rightarrow> Inl e
      | Inr path \<Rightarrow> Inr (u\<lparr>Path := path\<rparr>))"

definition parse :: "string \<Rightarrow> url_error + URL" where
  "parse rawURL =
     (if stringContainsCTLByte rawURL then Inl InvalidControlCharacter
      else if rawURL = ''*'' then Inr (zero_URL\<lparr>Path := ''*''\<rparr>)
      else
        (case getScheme rawURL of
           Inl e \<Rightarrow> Inl e
         | Inr (scheme, rest0) \<Rightarrow>
             (let url = zero_URL\<lparr>Scheme := ToLower scheme\<rparr>;
                  (rest, url) =
                    (if HasSuffix rest0 ''?'' \<and> count_list rest0 CHR ''?'' = 1
                     then (butlast rest0, url\<lparr>ForceQuery := True\<rparr>)
                     else (fst (Cut rest0 CHR ''?''), url\<lparr>RawQuery := snd (Cut rest0 CHR ''?'')\<rparr>))
              in
              if \<not> HasPrefix rest ''/'' \<and> Scheme url \<noteq> [] then Inr (url\<lparr>Opaque := rest\<rparr>)
              else if \<not> HasPrefix rest ''/'' \<and> CHR '':'' \<in> set (fst (Cut rest CHR ''/''))
                then Inl FirstPathSegmentColon
              else if (Scheme url \<noteq> [] \<or> \<not> HasPrefix rest ''///'') \<and> HasPrefix rest ''//'' then
                (let authority = fst (Cut (drop 2 rest) CHR ''/'');
                     rest' = dropWhile (\<lambda>x. x \<noteq> CHR ''/'') (drop 2 rest)
                 in case parseAuthority authority of
                      Inl e \<Rightarrow> Inl e
                    | Inr (user, host) \<Rightarrow> setPath (url\<lparr>User := user, Host := host\<rparr>) rest')
              else setPath url rest)))"

definition url_Parse :: "string \<Rightarrow> error + URL" where
  "url_Parse rawURL =
     (case Cut rawURL CHR ''#'' of
        (u, frag) \<Rightarrow>
          (case parse u of
             Inl e \<Rightarrow> Inl (UrlError e)
           | Inr url \<Rightarrow>
               if frag = [] then Inr url
               else
                 (case unescape frag encodeFragment of
                    Inl e \<Rightarrow> Inl (UrlError e)
                  | Inr f \<Rightarrow> Inr (url\<lparr>Fragment := f\<rparr>))))"

definition splitHostPort :: "string \<Rightarrow> string \<times> string" where
  "splitHostPort hostPort =
     (let (host, port) =
            (case LastIndexByte hostPort CHR '':'' of
               Some colon \<Rightarrow>
                 if validOptionalPort (drop colon hostPort)
                 then (take colon hostPort, drop (Suc colon) hostPort)
                 else (hostPort, [])
             | None \<Rightarrow> (hostPort, []))
      in if HasPrefix host ''['' \<and> HasSuffix host '']'' then (butlast (tl host), port)
         else (host, port))"

definition url_Hostname :: "URL \<Rightarrow> string" where
  "url_Hostname u = fst (splitHostPort (Host u))"

section \<open>The gateway process (main.go)\<close>

subsection \<open>Data\<close>

text \<open>\<^verbatim>\<open>time.Duration\<close> counts nanoseconds in an int64; the constants below are far from its bounds.\<close>

type_synonym Duration = int

definition Second :: Duration where
  "Second = 1000000000"

definition Minute :: Duration where
  "Minute = 60 * Second"

definition Hour :: Duration where
  "Hour = 60 * Minute"

text \<open>
  Modelled from the spec: the declaration of \<^verbatim>\<open>tobab.Config\<close> is not among the sources.
  Of the settings the spec lists, the code modelled here reads the primary management
  hostname and the default and maximum token lifetimes, the last two as strings.
\<close>

record Config =
  Hostname_Config :: string
  DefaultTokenAge :: string
  MaxTokenAge :: string

text \<open>
  What the process does to the outside is kept as a list of effects, oldest first: a call
  of the logger with its level, message and fields, \<^verbatim>\<open>Shutdown\<close> of the live server with
  the timeout of its context, \<^verbatim>\<open>Close\<close> of the database, and the start of a goroutine.
  A \<^verbatim>\<open>Fatal\<close> log call ends the process after writing its entry: a function that can
  reach one returns \<open>Inl\<close> with the effects up to and including that entry.
\<close>

datatype Level = DebugLevel | InfoLevel | ErrorLevel | FatalLevel

datatype field = WithField string string | WithError "error option"

datatype effect =
    Log Level string "field list"
  | Shutdown Duration
  | Close
  | Go string

text \<open>
  \<^verbatim>\<open>http.Header\<close> is a map from a key to the list of its values. \<^verbatim>\<open>Add\<close> appends a value
  to the list of the key, \<^verbatim>\<open>Get\<close> returns the first value of the key or the empty string,
  \<^verbatim>\<open>Values\<close> all values of the key.
  Both keys that the code adds are already in canonical form.
\<close>

type_synonym Header = "string \<rightharpoonup> string list"

definition Header_Add :: "Header \<Rightarrow> string \<Rightarrow> string \<Rightarrow> Header" where
  "Header_Add h key v = h(key \<mapsto> (case h key of None \<Rightarrow> [] | Some vs \<Rightarrow> vs) @ [v])"

definition Header_Get :: "Header \<Rightarrow> string \<Rightarrow> string" where
  "Header_Get h key = (case h key of None \<Rightarrow> [] | Some [] \<Rightarrow> [] | Some (v # _) \<Rightarrow> v)"

definition Header_Values :: "Header \<Rightarrow> string \<Rightarrow> string list" where
  "Header_Values h key = (case h key of None \<Rightarrow> [] | Some vs \<Rightarrow> vs)"

record Request =
  Method :: string
  URL :: URL
  Host_Request :: string
  Header :: Header
  Body :: string

text \<open>
  \<^verbatim>\<open>httputil.ReverseProxy\<close> with the one field the repository sets by its own code, the
  Director. The transport is built from fixed numbers and is not modelled.
\<close>

record ReverseProxy =
  Director :: "Request \<Rightarrow> Request"

text \<open>
  A route of the router: the host it matches, the path prefix it matches if it has one,
  and its handler, which is either a proxy or the subrouter of the management routes
  (filled by \<^verbatim>\<open>setTobabRoutes\<close>, which is not among the sources). The router tries its
  routes in the order in which they were added.
\<close>

datatype Handler = ProxyHandler ReverseProxy | TobabRoutes

record Route =
  route_host :: string
  route_pathPrefix :: "string option"
  route_handler :: Handler

fun Match :: "Route list \<Rightarrow> string \<Rightarrow> string \<Rightarrow> Handler option" where
  "Match [] reqHost reqPath = None"
| "Match (rt # rts) reqHost reqPath =
     (if route_host rt = reqHost
         \<and> (case route_pathPrefix rt of None \<Rightarrow> True | Some p \<Rightarrow> HasPrefix reqPath p)
      then Some (route_handler rt)
      else Match rts reqHost reqPath)"

record Server =
  Handler :: "Route list"
  WriteTimeout :: Duration
  ReadTimeout :: Duration
  IdleTimeout :: Duration

record Tobab =
  fqdn :: string
  config :: Config
  effects :: "effect list"
  maxAge :: Duration
  defaultAge :: Duration
  db_Tobab :: stormDB
  server :: "Server option"

subsection \<open>generateProxy\<close>

definition generateProxy :: "string \<Rightarrow> string \<Rightarrow> error + ReverseProxy" where
  "generateProxy host backend =
     (case url_Parse backend of
        Inl err \<Rightarrow> Inl err
      | Inr url \<Rightarrow>
          Inr \<lparr>Director = (\<lambda>req.
            let req = req\<lparr>Header := Header_Add (Header req) ''X-Forwarded-Host'' (url_Hostname url)\<rparr>;
                req = req\<lparr>Header := Header_Add (Header req) ''X-Origin-Host'' host\<rparr>;
                req = req\<lparr>Host_Request := Host url\<rparr>;
                req = req\<lparr>URL := (URL req)\<lparr>Host := Host url\<rparr>\<rparr>;
                req = req\<lparr>URL := (URL req)\<lparr>Scheme := Scheme url\<rparr>\<rparr>
            in req)\<rparr>)"

subsection \<open>startServer\<close>

text \<open>
  The local variables of \<^verbatim>\<open>startServer\<close> that its loop over the hosts changes: the
  router \<^verbatim>\<open>r\<close>, the list \<^verbatim>\<open>certHosts\<close> and what has been logged.
\<close>

record build =
  router :: "Route list"
  certHosts :: "string list"
  logged :: "effect list"

text \<open>The loop \<^verbatim>\<open>for _, conf := range hosts\<close>.\<close>

fun startServer_hosts :: "build \<Rightarrow> Host list \<Rightarrow> effect list + build" where
  "startServer_hosts b [] = Inr b"
| "startServer_hosts b (conf # hosts) =
     (if Type conf \<noteq> ''http'' then
        Inl (logged b @ [Log FatalLevel ''Unsupported type, currently only http is supported''
                          [WithField ''type'' (Type conf)]])
      else
        (case generateProxy (Hostname conf) (Backend conf) of
           Inl err \<Rightarrow>
             startServer_hosts
               (b\<lparr>logged := logged b @ [Log ErrorLevel ''Failed creating proxy''
                    [WithError (Some err), WithField ''host'' (Hostname conf)]]\<rparr>)
               hosts
         | Inr proxy \<Rightarrow>
             startServer_hosts
               (b\<lparr>logged := logged b @ [Log DebugLevel ''starting proxy listener''
                    [WithField ''host'' (Hostname conf)]],
                  router := router b @ [\<lparr>route_host = Hostname conf, route_pathPrefix = Some ''/'',
                    route_handler = ProxyHandler proxy\<rparr>],
                  certHosts := certHosts b @ [Hostname conf]\<rparr>)
               hosts))"

text \<open>
  The whole function. \<^verbatim>\<open>certmagic.Listen\<close> is a collaborator: its outcome for a list of
  domains is the parameter \<open>certmagic_Listen\<close>, \<open>None\<close> for a listener and \<open>Some err\<close> for
  a failure. The middlewares are added to the router without changing its routes and are
  not modelled; the goroutine that serves on the listener is an effect.
\<close>

definition startServer :: "(string list \<Rightarrow> error option) \<Rightarrow> Tobab \<Rightarrow> effect list + Tobab" where
  "startServer certmagic_Listen app =
     (let out = effects app @ [Log InfoLevel ''starting server'' []];
          b = \<lparr>router = [], certHosts = [Hostname_Config (config app)],
                logged = out @ [Log DebugLevel ''loading hosts'' []]\<rparr>
      in case GetHosts (db_Tobab app) of
           (hosts, Some err) \<Rightarrow>
             Inl (logged b @ [Log FatalLevel ''unable to load hosts'' [WithError (Some err)]])
         | (hosts, None) \<Rightarrow>
             (case startServer_hosts b hosts of
                Inl out \<Rightarrow> Inl out
              | Inr b \<Rightarrow>
                  (let r = router b @ [\<lparr>route_host = Hostname_Config (config app),
                                         route_pathPrefix = None, route_handler = TobabRoutes\<rparr>]
                   in case certmagic_Listen (certHosts b) of
                        Some err \<Rightarrow>
                          Inl (logged b @ [Log FatalLevel ''Failed getting certmagic listener''
                                             [WithError (Some err)]])
                      | None \<Rightarrow>
                          Inr (app\<lparr>effects := logged b @ [Go ''srv.Serve''],
                                 server := Some \<lparr>Handler = r, WriteTimeout = 15 * Second,
                                   ReadTimeout = 15 * Second, IdleTimeout = 60 * Second\<rparr>\<rparr>))))"

subsection \<open>restartServer\<close>

text \<open>
  \<^verbatim>\<open>Shutdown\<close> is called on \<^verbatim>\<open>app.server\<close> with a context that times out after one
  minute; what it returns is the parameter \<open>err\<close>. Called while \<^verbatim>\<open>app.server\<close> is still
  \<^verbatim>\<open>nil\<close>, the method dereferences a nil pointer and the process panics: the result
  \<open>None\<close>.
\<close>

definition restartServer :: "error option \<Rightarrow> Tobab \<Rightarrow> Tobab option" where
  "restartServer err app =
     (let out = effects app @ [Log InfoLevel ''shutting down server'' []]
      in case server app of
           None \<Rightarrow> None
         | Some srv \<Rightarrow>
             Some (app\<lparr>effects := out @ [Shutdown (1 * Minute),
                      Log InfoLevel ''server was shut down'' [WithError err],
                      Go ''startServer'']\<rparr>))"


subsection \<open>run\<close>

text \<open>
  Lines 133 to 153 of \<^verbatim>\<open>run\<close>: the application value and its two token lifetimes.
  \<^verbatim>\<open>time.ParseDuration\<close> is a function of the standard library that computes with floating
  point numbers; it is the parameter \<open>ParseDuration\<close>, \<open>Inl\<close> for its error and \<open>Inr\<close> for
  the duration it parsed.
\<close>

definition run_app :: "(string \<Rightarrow> error + Duration) \<Rightarrow> Config \<Rightarrow> stormDB \<Rightarrow> Tobab" where
  "run_app ParseDuration cfg database =
     (let app = \<lparr>fqdn = ''https://'' @ Hostname_Config cfg, config = cfg, effects = [],
                  maxAge = 720 * Hour, defaultAge = 0, db_Tobab = database, server = None\<rparr>;
          app = (case ParseDuration (DefaultTokenAge cfg) of
                   Inl err \<Rightarrow> app\<lparr>defaultAge := 720 * Hour\<rparr>
                 | Inr age \<Rightarrow> app\<lparr>defaultAge := age\<rparr>);
          app = (case ParseDuration (MaxTokenAge cfg) of
                   Inl err \<Rightarrow> app\<lparr>maxAge := 24 * 365 * Hour\<rparr>
                 | Inr age \<Rightarrow> app\<lparr>maxAge := age\<rparr>)
      in app)"

text \<open>
  Lines 162 to 170 of \<^verbatim>\<open>run\<close>, from the moment the interrupt signal arrives on the
  channel: one log call, then the function returns, which runs the deferred
  \<^verbatim>\<open>db.Close()\<close>, and the process ends. The argument is the application as it is when
  the signal arrives.
\<close>

definition run_interrupt :: "Tobab \<Rightarrow> Tobab" where
  "run_interrupt app = app\<lparr>effects := effects app @ [Log InfoLevel ''shutting down'' [], Close]\<rparr>"

subsection \<open>Predicates of the statements\<close>

text \<open>A host has a valid backend when \<^verbatim>\<open>url.Parse\<close> returns no error for it.\<close>

definition backend_ok :: "Host \<Rightarrow> bool" where
  "backend_ok h = (case url_Parse (Backend h) of Inl err \<Rightarrow> False | Inr url \<Rightarrow> True)"

section \<open>Properties of the registry\<close>

lemma bucket_Get_None_iff: "bucket_Get d k = None \<longleftrightarrow> k \<notin> fst ` set d"
  by (induction d k rule: bucket_Get.induct) auto

lemma bucket_Get_absent: "k \<notin> fst ` set d \<Longrightarrow> bucket_Get d k = None"
  by (simp add: bucket_Get_None_iff)

lemma bucket_Get_Put:
  "bucket_Get (bucket_Put k v d) q = (if q = k then Some v else bucket_Get d q)"
  by (induction k v d rule: bucket_Put.induct) auto

lemma bucket_Put_keys:
  "sorted_wrt (<) (map fst d) \<Longrightarrow> k \<in> fst ` set d \<Longrightarrow> map fst (bucket_Put k v d) = map fst d"
proof (induction k v d rule: bucket_Put.induct)
  case (1 k v)
  then show ?case by simp
next
  case (2 k v k' v' kvs)
  show ?case
  proof (cases "k = k'")
    case True
    then show ?thesis by simp
  next
    case False
    with "2.prems" have mem: "k \<in> fst ` set kvs" by auto
    with "2.prems" have "k' < k" by auto
    then have "\<not> k < k'" by simp
    with False mem "2.IH" "2.prems" show ?thesis by simp
  qed
qed

text \<open>
  The empty database is well kept, and \<open>AddHost\<close> and \<open>DeleteHost\<close> keep it so: every
  database the wrapper can reach satisfies \<open>bucket_ok\<close>.
\<close>

lemma bucket_ok_empty: "bucket_ok []"
  by (simp add: bucket_ok_def)

lemma bucket_Put_keys_set: "fst ` set (bucket_Put k v d) = insert k (fst ` set d)"
  by (induction k v d rule: bucket_Put.induct) auto

lemma bucket_Put_sorted:
  "sorted_wrt (<) (map fst d) \<Longrightarrow> sorted_wrt (<) (map fst (bucket_Put k v d))"
proof (induction k v d rule: bucket_Put.induct)
  case (1 k v)
  then show ?case by simp
next
  case (2 k v k' v' kvs)
  then show ?case
    by (auto simp: bucket_Put_keys_set)
qed

lemma bucket_Delete_keys: "map fst (bucket_Delete k d) = remove1 k (map fst d)"
  by (induction k d rule: bucket_Delete.induct) auto

lemma AddHost_bucket_ok:
  assumes "bucket_ok (db s)"
  shows "bucket_ok (db (snd (AddHost s h)))"
  using assms
  by (auto simp: AddHost_def storm_Save_def bucket_ok_def bucket_Put_sorted bucket_Put_keys_set)

lemma DeleteHost_bucket_ok:
  assumes "bucket_ok (db s)"
  shows "bucket_ok (db (snd (DeleteHost s hostname)))"
proof -
  have "sorted_wrt (<) (remove1 k ks)" if "sorted_wrt (<) ks" for k and ks :: "string list"
    using that by (induction ks) (auto dest: notin_set_remove1)
  moreover have "[] \<notin> set (remove1 k ks)" if "[] \<notin> set ks" for k and ks :: "string list"
    using that by (auto dest: notin_set_remove1)
  ultimately show ?thesis
    using assms
    by (auto simp: DeleteHost_def GetHost_def storm_One_def storm_DeleteStruct_def bucket_ok_def
          bucket_Delete_keys split: option.splits simp del: set_map)
qed

text \<open>
  C8. In every registry state in which a hostname is absent, DeleteHost with that hostname
  returns the error ErrNotFound and the registry is the one it was: nothing is added,
  removed or changed.
\<close>

theorem DeleteHost_absent:
  "hostname \<notin> set (hostnames s) \<Longrightarrow> DeleteHost s hostname = (Some ErrNotFound, s)"
  by (simp add: DeleteHost_def GetHost_def storm_One_def hostnames_def bucket_Get_absent)

theorem DeleteHost_absent_witness:
  "''b.example.com'' \<notin> set (hostnames \<lparr>db = [(''a.example.com'',
       \<lparr>Hostname = ''a.example.com'', Backend = ''http://127.0.0.1:9000'', Type = ''http''\<rparr>)]\<rparr>)
   \<and> DeleteHost \<lparr>db = [(''a.example.com'',
       \<lparr>Hostname = ''a.example.com'', Backend = ''http://127.0.0.1:9000'', Type = ''http''\<rparr>)]\<rparr>
       ''b.example.com''
     = (Some ErrNotFound, \<lparr>db = [(''a.example.com'',
       \<lparr>Hostname = ''a.example.com'', Backend = ''http://127.0.0.1:9000'', Type = ''http''\<rparr>)]\<rparr>)"
proof -
  have absent: "''b.example.com'' \<notin> set (hostnames \<lparr>db = [(''a.example.com'',
       \<lparr>Hostname = ''a.example.com'', Backend = ''http://127.0.0.1:9000'', Type = ''http''\<rparr>)]\<rparr>)"
    by (simp add: hostnames_def)
  show ?thesis
    using absent DeleteHost_absent [OF absent] by simp
qed

text \<open>
  C10. For every hostname GetHost returns a pointer that is not nil. When the lookup
  fails, the pointer refers to the zero-value Host and comes with the error; a hostname
  that is not registered gives ErrNotFound.
\<close>

theorem GetHost_never_nil:
  "(\<exists>h. fst (GetHost s hostname) = Some h)
   \<and> (snd (GetHost s hostname) \<noteq> None \<longrightarrow> fst (GetHost s hostname) = Some zero_Host)
   \<and> (hostname \<notin> set (hostnames s) \<longrightarrow> GetHost s hostname = (Some zero_Host, Some ErrNotFound))"
proof (cases "bucket_Get (db s) hostname")
  case None
  then show ?thesis
    by (simp add: GetHost_def storm_One_def)
next
  case (Some h)
  then have "hostname \<in> fst ` set (db s)"
    using bucket_Get_None_iff [of "db s" hostname] by simp
  with Some show ?thesis
    by (simp add: GetHost_def storm_One_def hostnames_def)
qed

theorem GetHost_never_nil_witness:
  "GetHost \<lparr>db = []\<rparr> ''a.example.com'' = (Some zero_Host, Some ErrNotFound)"
  using GetHost_never_nil [of "\<lparr>db = []\<rparr>" "''a.example.com''"]
  by (simp add: hostnames_def)

text \<open>
  C7, as the spec states it, fails. A host record is added whose hostname is already
  registered with another backend: AddHost returns no error, and the record stored under
  the hostname is the new one.
\<close>

theorem AddHost_duplicate_counterexample:
  "''a.example.com'' \<in> set (hostnames \<lparr>db = [(''a.example.com'',
       \<lparr>Hostname = ''a.example.com'', Backend = ''http://127.0.0.1:9000'', Type = ''http''\<rparr>)]\<rparr>)
   \<and> AddHost \<lparr>db = [(''a.example.com'',
       \<lparr>Hostname = ''a.example.com'', Backend = ''http://127.0.0.1:9000'', Type = ''http''\<rparr>)]\<rparr>
       \<lparr>Hostname = ''a.example.com'', Backend = ''http://127.0.0.1:9001'', Type = ''http''\<rparr>
     = (None, \<lparr>db = [(''a.example.com'',
       \<lparr>Hostname = ''a.example.com'', Backend = ''http://127.0.0.1:9001'', Type = ''http''\<rparr>)]\<rparr>)"
  by (simp add: hostnames_def AddHost_def storm_Save_def)

text \<open>
  C7, amended. In every registry state in which a hostname is present, AddHost with a
  host record bearing that hostname returns no error and replaces the record stored for
  that hostname by the new one; the set of registered hostnames and the records of all
  other hostnames stay as they were.
\<close>

theorem AddHost_present_replaces:
  assumes ok: "bucket_ok (db s)"
    and present: "Hostname h \<in> set (hostnames s)"
  shows "fst (AddHost s h) = None
    \<and> GetHost (snd (AddHost s h)) (Hostname h) = (Some h, None)
    \<and> hostnames (snd (AddHost s h)) = hostnames s
    \<and> (\<forall>k. k \<noteq> Hostname h \<longrightarrow> GetHost (snd (AddHost s h)) k = GetHost s k)"
proof -
  from ok present have nonempty: "Hostname h \<noteq> []"
    unfolding bucket_ok_def hostnames_def by metis
  then have add: "AddHost s h = (None, s\<lparr>db := bucket_Put (Hostname h) h (db s)\<rparr>)"
    by (simp add: AddHost_def storm_Save_def)
  from ok present have keys: "map fst (bucket_Put (Hostname h) h (db s)) = map fst (db s)"
    by (simp add: bucket_ok_def hostnames_def bucket_Put_keys)
  show ?thesis
    by (simp add: add keys GetHost_def storm_One_def hostnames_def bucket_Get_Put)
qed

theorem AddHost_present_replaces_witness:
  "bucket_ok (db \<lparr>db = [(''a.example.com'',
       \<lparr>Hostname = ''a.example.com'', Backend = ''http://127.0.0.1:9000'', Type = ''http''\<rparr>)]\<rparr>)
   \<and> ''a.example.com'' \<in> set (hostnames \<lparr>db = [(''a.example.com'',
       \<lparr>Hostname = ''a.example.com'', Backend = ''http://127.0.0.1:9000'', Type = ''http''\<rparr>)]\<rparr>)
   \<and> GetHost (snd (AddHost \<lparr>db = [(''a.example.com'',
       \<lparr>Hostname = ''a.example.com'', Backend = ''http://127.0.0.1:9000'', Type = ''http''\<rparr>)]\<rparr>
       \<lparr>Hostname = ''a.example.com'', Backend = ''http://127.0.0.1:9001'', Type = ''http''\<rparr>))
       ''a.example.com''
     = (Some \<lparr>Hostname = ''a.example.com'', Backend = ''http://127.0.0.1:9001'', Type = ''http''\<rparr>,
        None)"
proof -
  let ?s = "\<lparr>db = [(''a.example.com'',
       \<lparr>Hostname = ''a.example.com'', Backend = ''http://127.0.0.1:9000'', Type = ''http''\<rparr>)]\<rparr>"
  let ?h = "\<lparr>Hostname = ''a.example.com'', Backend = ''http://127.0.0.1:9001'', Type = ''http''\<rparr>"
  have ok: "bucket_ok (db ?s)"
    by (simp add: bucket_ok_def)
  have present: "Hostname ?h \<in> set (hostnames ?s)"
    by (simp add: hostnames_def)
  show ?thesis
    using ok present AddHost_present_replaces [OF ok present] by simp
qed

section \<open>Properties of the process\<close>

subsection \<open>Backends that parse and one that does not\<close>

lemma url_Parse_loopback:
  "url_Parse ''http://127.0.0.1:9000'' = Inr (zero_URL\<lparr>Scheme := ''http'', Host := ''127.0.0.1:9000''\<rparr>)"
  by code_simp

lemma url_Parse_not_a_url:
  "url_Parse ''not-a-url'' = Inr (zero_URL\<lparr>Path := ''not-a-url''\<rparr>)"
  by code_simp

lemma url_Parse_colon_first:
  "url_Parse '':not-a-url'' = Inl (UrlError MissingProtocolScheme)"
  by code_simp

lemma startServer_hosts_append:
  "startServer_hosts b (pre @ rest) =
     (case startServer_hosts b pre of Inl out \<Rightarrow> Inl out | Inr b' \<Rightarrow> startServer_hosts b' rest)"
proof (induction pre arbitrary: b)
  case Nil
  then show ?case by simp
next
  case (Cons conf pre)
  show ?case
    by (simp add: Cons.IH split: sum.splits)
qed

lemma startServer_hosts_http:
  assumes "\<forall>h \<in> set hosts. Type h = ''http''"
  shows "\<exists>b'. startServer_hosts b hosts = Inr b'
    \<and> certHosts b' = certHosts b @ map Hostname (filter backend_ok hosts)
    \<and> map route_host (router b') = map route_host (router b) @ map Hostname (filter backend_ok hosts)"
  using assms
proof (induction hosts arbitrary: b)
  case Nil
  then show ?case by simp
next
  case (Cons conf hosts)
  then have http: "Type conf = ''http''" and rest: "\<forall>h \<in> set hosts. Type h = ''http''"
    by simp_all
  show ?case
  proof (cases "generateProxy (Hostname conf) (Backend conf)")
    case (Inl err)
    let ?b1 = "b\<lparr>logged := logged b @ [Log ErrorLevel ''Failed creating proxy''
                 [WithError (Some err), WithField ''host'' (Hostname conf)]]\<rparr>"
    from Inl have bad: "\<not> backend_ok conf"
      by (simp add: backend_ok_def generateProxy_def split: sum.splits)
    from Inl http have step: "startServer_hosts b (conf # hosts) = startServer_hosts ?b1 hosts"
      by simp
    from Cons.IH [OF rest, of ?b1] bad show ?thesis
      unfolding step by simp
  next
    case (Inr proxy)
    let ?b1 = "b\<lparr>logged := logged b @ [Log DebugLevel ''starting proxy listener''
                    [WithField ''host'' (Hostname conf)]],
                  router := router b @ [\<lparr>route_host = Hostname conf, route_pathPrefix = Some ''/'',
                    route_handler = ProxyHandler proxy\<rparr>],
                  certHosts := certHosts b @ [Hostname conf]\<rparr>"
    from Inr have good: "backend_ok conf"
      by (simp add: backend_ok_def generateProxy_def split: sum.splits)
    from Inr http have step: "startServer_hosts b (conf # hosts) = startServer_hosts ?b1 hosts"
      by simp
    from Cons.IH [OF rest, of ?b1] good show ?thesis
      unfolding step by simp
  qed
qed


lemma startServer_hosts_logged:
  assumes "startServer_hosts b hosts = Inr b'"
  shows "set (logged b) \<subseteq> set (logged b')
    \<and> (\<forall>h \<in> set hosts. \<forall>err. url_Parse (Backend h) = Inl err \<longrightarrow>
          Log ErrorLevel ''Failed creating proxy''
            [WithError (Some err), WithField ''host'' (Hostname h)] \<in> set (logged b'))"
  using assms
proof (induction hosts arbitrary: b)
  case Nil
  then show ?case by simp
next
  case (Cons conf hosts)
  from Cons.prems have http: "Type conf = ''http''"
    by (simp split: if_splits)
  show ?case
  proof (cases "url_Parse (Backend conf)")
    case (Inl err)
    let ?b1 = "b\<lparr>logged := logged b @ [Log ErrorLevel ''Failed creating proxy''
                 [WithError (Some err), WithField ''host'' (Hostname conf)]]\<rparr>"
    from Inl http Cons.prems have "startServer_hosts ?b1 hosts = Inr b'"
      by (simp add: generateProxy_def)
    from Cons.IH [OF this] Inl show ?thesis
      by auto
  next
    case (Inr url)
    then obtain proxy where proxy: "generateProxy (Hostname conf) (Backend conf) = Inr proxy"
      by (simp add: generateProxy_def)
    let ?b1 = "b\<lparr>logged := logged b @ [Log DebugLevel ''starting proxy listener''
                    [WithField ''host'' (Hostname conf)]],
                  router := router b @ [\<lparr>route_host = Hostname conf, route_pathPrefix = Some ''/'',
                    route_handler = ProxyHandler proxy\<rparr>],
                  certHosts := certHosts b @ [Hostname conf]\<rparr>"
    from proxy http Cons.prems have "startServer_hosts ?b1 hosts = Inr b'"
      by simp
    from Cons.IH [OF this] Inr show ?thesis
      by auto
  qed
qed

subsection \<open>The routing table\<close>

text \<open>
  C4. If the host list contains an entry whose Type is not \<open>http\<close>, \<^verbatim>\<open>startServer\<close> ends
  the process with a fatal log entry: it returns no application and so no server or
  router. What it has done up to then is what it does on the list cut off after that
  entry, so no host behind the entry is processed. When the entry is the first of its
  kind, the fatal entry names its Type.
\<close>

theorem unsupported_type_aborts:
  assumes hosts: "GetHosts (db_Tobab app) = (pre @ bad # post, None)"
    and bad: "Type bad \<noteq> ''http''"
  shows "\<exists>out. startServer certmagic_Listen app = Inl out
    \<and> startServer_hosts
          \<lparr>router = [], certHosts = [Hostname_Config (config app)],
           logged = effects app @ [Log InfoLevel ''starting server'' [],
                                    Log DebugLevel ''loading hosts'' []]\<rparr>
          (pre @ [bad]) = Inl out
    \<and> ((\<forall>h \<in> set pre. Type h = ''http'') \<longrightarrow>
          last out = Log FatalLevel ''Unsupported type, currently only http is supported''
                       [WithField ''type'' (Type bad)])"
proof -
  let ?b = "\<lparr>router = [], certHosts = [Hostname_Config (config app)],
             logged = effects app @ [Log InfoLevel ''starting server'' [],
                                      Log DebugLevel ''loading hosts'' []]\<rparr>"
  have stop: "startServer_hosts b' (bad # rest) =
      Inl (logged b' @ [Log FatalLevel ''Unsupported type, currently only http is supported''
                          [WithField ''type'' (Type bad)]])" for b' rest
    using bad by simp
  have same: "startServer_hosts ?b (pre @ bad # post) = startServer_hosts ?b (pre @ [bad])"
    by (simp add: startServer_hosts_append [of ?b pre] stop del: startServer_hosts.simps
          split: sum.splits)
  have exits: "\<exists>out. startServer_hosts ?b (pre @ [bad]) = Inl out
      \<and> ((\<forall>h \<in> set pre. Type h = ''http'') \<longrightarrow>
            last out = Log FatalLevel ''Unsupported type, currently only http is supported''
                         [WithField ''type'' (Type bad)])"
  proof (cases "startServer_hosts ?b pre")
    case (Inl out)
    moreover have "\<not> (\<forall>h \<in> set pre. Type h = ''http'')"
      using startServer_hosts_http [of pre ?b] Inl by auto
    ultimately show ?thesis
      by (auto simp add: startServer_hosts_append [of ?b pre] simp del: startServer_hosts.simps)
  next
    case (Inr b')
    then show ?thesis
      by (simp add: startServer_hosts_append [of ?b pre] stop del: startServer_hosts.simps)
  qed
  then obtain out where out: "startServer_hosts ?b (pre @ [bad]) = Inl out"
    and last: "(\<forall>h \<in> set pre. Type h = ''http'') \<longrightarrow>
            last out = Log FatalLevel ''Unsupported type, currently only http is supported''
                         [WithField ''type'' (Type bad)]"
    by blast
  have "startServer certmagic_Listen app = Inl out"
    using hosts same out by (simp add: startServer_def)
  with out last show ?thesis
    by blast
qed

theorem unsupported_type_aborts_witness:
  "startServer (\<lambda>domains. None)
     \<lparr>fqdn = ''https://tobab.example.com'',
      config = \<lparr>Hostname_Config = ''tobab.example.com'', DefaultTokenAge = ''720h'',
                 MaxTokenAge = ''8760h''\<rparr>,
      effects = [], maxAge = 8760 * Hour, defaultAge = 720 * Hour,
      db_Tobab = \<lparr>db = [
        (''a.example.com'',
         \<lparr>Hostname = ''a.example.com'', Backend = ''http://127.0.0.1:9000'', Type = ''http''\<rparr>),
        (''b.example.com'',
         \<lparr>Hostname = ''b.example.com'', Backend = ''http://127.0.0.1:9001'', Type = ''tcp''\<rparr>),
        (''c.example.com'',
         \<lparr>Hostname = ''c.example.com'', Backend = ''http://127.0.0.1:9002'', Type = ''http''\<rparr>)]\<rparr>,
      server = None\<rparr>
   = Inl [Log InfoLevel ''starting server'' [], Log DebugLevel ''loading hosts'' [],
          Log DebugLevel ''starting proxy listener'' [WithField ''host'' ''a.example.com''],
          Log FatalLevel ''Unsupported type, currently only http is supported''
            [WithField ''type'' ''tcp'']]"
proof -
  let ?a = "\<lparr>Hostname = ''a.example.com'', Backend = ''http://127.0.0.1:9000'', Type = ''http''\<rparr>"
  let ?b = "\<lparr>Hostname = ''b.example.com'', Backend = ''http://127.0.0.1:9001'', Type = ''tcp''\<rparr>"
  let ?c = "\<lparr>Hostname = ''c.example.com'', Backend = ''http://127.0.0.1:9002'', Type = ''http''\<rparr>"
  let ?app = "\<lparr>fqdn = ''https://tobab.example.com'',
      config = \<lparr>Hostname_Config = ''tobab.example.com'', DefaultTokenAge = ''720h'',
                 MaxTokenAge = ''8760h''\<rparr>,
      effects = [], maxAge = 8760 * Hour, defaultAge = 720 * Hour,
      db_Tobab = \<lparr>db = [(''a.example.com'', ?a), (''b.example.com'', ?b), (''c.example.com'', ?c)]\<rparr>,
      server = None\<rparr>"
  have hosts: "GetHosts (db_Tobab ?app) = ([?a] @ ?b # [?c], None)"
    by (simp add: GetHosts_def storm_All_def)
  have bad: "Type ?b \<noteq> ''http''"
    by simp
  show ?thesis
    using unsupported_type_aborts [OF hosts bad, of "\<lambda>domains. None"]
    by (auto simp: generateProxy_def url_Parse_loopback)
qed


text \<open>
  C1, as the spec states it, fails. The registry holds one host whose hostname is the
  management hostname, of Type \<open>http\<close> and with a backend that parses. The
  certificate-domain list holds the management hostname twice.
\<close>

theorem certHosts_duplicate_counterexample:
  "(case startServer_hosts
           \<lparr>router = [], certHosts = [''tobab.example.com''], logged = []\<rparr>
           [\<lparr>Hostname = ''tobab.example.com'', Backend = ''http://127.0.0.1:9000'',
              Type = ''http''\<rparr>] of
      Inl out \<Rightarrow> False
    | Inr b \<Rightarrow> certHosts b = [''tobab.example.com'', ''tobab.example.com'']
               \<and> \<not> distinct (certHosts b))"
  by (simp add: generateProxy_def url_Parse_loopback)

text \<open>
  C1, amended. From N hosts, all of Type \<open>http\<close> and all with a backend that parses, the
  loop builds the certificate-domain list that starts with the management hostname and
  goes on with the N hostnames in the order of the hosts: N + 1 entries. The list is free
  of duplicates exactly when the N hostnames are pairwise different and none of them is
  the management hostname.
\<close>

theorem certHosts_all_valid:
  assumes "\<forall>h \<in> set hosts. Type h = ''http'' \<and> backend_ok h"
  shows "\<exists>b. startServer_hosts \<lparr>router = [], certHosts = [mgmt], logged = out\<rparr> hosts = Inr b
    \<and> certHosts b = mgmt # map Hostname hosts
    \<and> length (certHosts b) = length hosts + 1
    \<and> (distinct (certHosts b) \<longleftrightarrow> distinct (map Hostname hosts) \<and> mgmt \<notin> Hostname ` set hosts)"
proof -
  from assms have http: "\<forall>h \<in> set hosts. Type h = ''http''"
    and all: "filter backend_ok hosts = hosts"
    by simp_all
  from startServer_hosts_http [OF http, of "\<lparr>router = [], certHosts = [mgmt], logged = out\<rparr>"]
  obtain b where b: "startServer_hosts \<lparr>router = [], certHosts = [mgmt], logged = out\<rparr> hosts = Inr b"
    and certs: "certHosts b = mgmt # map Hostname hosts"
    by (auto simp: all)
  show ?thesis
    using b certs by auto
qed

theorem certHosts_all_valid_witness:
  "backend_ok \<lparr>Hostname = ''a.example.com'', Backend = ''http://127.0.0.1:9000'', Type = ''http''\<rparr>
   \<and> backend_ok \<lparr>Hostname = ''b.example.com'', Backend = ''http://127.0.0.1:9000'', Type = ''http''\<rparr>
   \<and> (\<exists>b. startServer_hosts \<lparr>router = [], certHosts = [''tobab.example.com''], logged = []\<rparr>
           [\<lparr>Hostname = ''a.example.com'', Backend = ''http://127.0.0.1:9000'', Type = ''http''\<rparr>,
            \<lparr>Hostname = ''b.example.com'', Backend = ''http://127.0.0.1:9000'', Type = ''http''\<rparr>] = Inr b
        \<and> certHosts b = [''tobab.example.com'', ''a.example.com'', ''b.example.com'']
        \<and> distinct (certHosts b))"
proof -
  let ?hosts = "[\<lparr>Hostname = ''a.example.com'', Backend = ''http://127.0.0.1:9000'', Type = ''http''\<rparr>,
                 \<lparr>Hostname = ''b.example.com'', Backend = ''http://127.0.0.1:9000'', Type = ''http''\<rparr>]"
  have valid: "\<forall>h \<in> set ?hosts. Type h = ''http'' \<and> backend_ok h"
    by (simp add: backend_ok_def url_Parse_loopback)
  show ?thesis
    using valid certHosts_all_valid [OF valid, of "''tobab.example.com''" "[]"]
    by auto
qed

text \<open>
  C2, as the spec states it, fails in its example. \<^verbatim>\<open>url.Parse\<close> accepts the string
  \<open>not-a-url\<close> (a relative reference with that path), so the host \<open>b.example.com\<close> gets
  its route like \<open>a.example.com\<close>.
\<close>

theorem malformed_backend_counterexample:
  "(case startServer (\<lambda>domains. None)
      \<lparr>fqdn = ''https://tobab.example.com'',
       config = \<lparr>Hostname_Config = ''tobab.example.com'', DefaultTokenAge = ''720h'',
                  MaxTokenAge = ''8760h''\<rparr>,
       effects = [], maxAge = 8760 * Hour, defaultAge = 720 * Hour,
       db_Tobab = \<lparr>db = [
         (''a.example.com'',
          \<lparr>Hostname = ''a.example.com'', Backend = ''http://127.0.0.1:9000'', Type = ''http''\<rparr>),
         (''b.example.com'',
          \<lparr>Hostname = ''b.example.com'', Backend = ''not-a-url'', Type = ''http''\<rparr>)]\<rparr>,
       server = None\<rparr> of
      Inl out \<Rightarrow> False
    | Inr app \<Rightarrow>
        (case server app of
           None \<Rightarrow> False
         | Some srv \<Rightarrow>
             map route_host (Handler srv) = [''a.example.com'', ''b.example.com'', ''tobab.example.com'']
             \<and> Match (Handler srv) ''b.example.com'' ''/'' \<noteq> None))"
  by (simp add: startServer_def GetHosts_def storm_All_def generateProxy_def
        url_Parse_loopback url_Parse_not_a_url HasPrefix_def)

text \<open>
  C2, amended. When every host is of Type \<open>http\<close> and the listener can be opened,
  \<^verbatim>\<open>startServer\<close> returns with a server: the process does not end. The routes of the
  server are, in order, those of the hosts whose backend \<^verbatim>\<open>url.Parse\<close> accepts, then the
  management route; a host whose backend fails to parse has no route of its own, and an
  error entry naming it is logged. The instance that follows is the example of the spec with the
  backend \<open>:not-a-url\<close>, which \<^verbatim>\<open>url.Parse\<close> rejects: \<open>a.example.com\<close> is served,
  \<open>b.example.com\<close> is not.
\<close>

theorem malformed_backend_skipped:
  assumes hosts: "GetHosts (db_Tobab app) = (hosts, None)"
    and http: "\<forall>h \<in> set hosts. Type h = ''http''"
    and listen: "certmagic_Listen
        (Hostname_Config (config app) # map Hostname (filter backend_ok hosts)) = None"
  shows "\<exists>app' srv. startServer certmagic_Listen app = Inr app'
    \<and> server app' = Some srv
    \<and> map route_host (Handler srv)
        = map Hostname (filter backend_ok hosts) @ [Hostname_Config (config app)]
    \<and> (\<forall>h \<in> set hosts. \<forall>err. url_Parse (Backend h) = Inl err \<longrightarrow>
          Log ErrorLevel ''Failed creating proxy''
            [WithError (Some err), WithField ''host'' (Hostname h)] \<in> set (effects app'))"
proof -
  let ?b = "\<lparr>router = [], certHosts = [Hostname_Config (config app)],
             logged = effects app @ [Log InfoLevel ''starting server'' [],
                                      Log DebugLevel ''loading hosts'' []]\<rparr>"
  from startServer_hosts_http [OF http, of ?b]
  obtain b' where loop: "startServer_hosts ?b hosts = Inr b'"
    and certs: "certHosts b' = Hostname_Config (config app) # map Hostname (filter backend_ok hosts)"
    and routes: "map route_host (router b') = map Hostname (filter backend_ok hosts)"
    by auto
  let ?srv = "\<lparr>Handler = router b' @ [\<lparr>route_host = Hostname_Config (config app),
                  route_pathPrefix = None, route_handler = TobabRoutes\<rparr>],
                WriteTimeout = 15 * Second, ReadTimeout = 15 * Second,
                IdleTimeout = 60 * Second\<rparr>"
  let ?app' = "app\<lparr>effects := logged b' @ [Go ''srv.Serve''], server := Some ?srv\<rparr>"
  have run: "startServer certmagic_Listen app = Inr ?app'"
    using hosts loop certs listen by (simp add: startServer_def)
  have logs: "\<forall>h \<in> set hosts. \<forall>err. url_Parse (Backend h) = Inl err \<longrightarrow>
          Log ErrorLevel ''Failed creating proxy''
            [WithError (Some err), WithField ''host'' (Hostname h)] \<in> set (effects ?app')"
    using startServer_hosts_logged [OF loop] by simp
  have "server ?app' = Some ?srv"
    by simp
  moreover have "map route_host (Handler ?srv)
        = map Hostname (filter backend_ok hosts) @ [Hostname_Config (config app)]"
    using routes by simp
  ultimately show ?thesis
    using run logs by blast
qed

theorem malformed_backend_skipped_witness:
  "(case startServer (\<lambda>domains. None)
      \<lparr>fqdn = ''https://tobab.example.com'',
       config = \<lparr>Hostname_Config = ''tobab.example.com'', DefaultTokenAge = ''720h'',
                  MaxTokenAge = ''8760h''\<rparr>,
       effects = [], maxAge = 8760 * Hour, defaultAge = 720 * Hour,
       db_Tobab = \<lparr>db = [
         (''a.example.com'',
          \<lparr>Hostname = ''a.example.com'', Backend = ''http://127.0.0.1:9000'', Type = ''http''\<rparr>),
         (''b.example.com'',
          \<lparr>Hostname = ''b.example.com'', Backend = '':not-a-url'', Type = ''http''\<rparr>)]\<rparr>,
       server = None\<rparr> of
      Inl out \<Rightarrow> False
    | Inr app \<Rightarrow>
        (case server app of
           None \<Rightarrow> False
         | Some srv \<Rightarrow>
             map route_host (Handler srv) = [''a.example.com'', ''tobab.example.com'']
             \<and> Match (Handler srv) ''a.example.com'' ''/foo'' \<noteq> None
             \<and> Match (Handler srv) ''b.example.com'' ''/foo'' = None
             \<and> Log ErrorLevel ''Failed creating proxy''
                   [WithError (Some (UrlError MissingProtocolScheme)),
                    WithField ''host'' ''b.example.com''] \<in> set (effects app)))"
proof -
  let ?a = "\<lparr>Hostname = ''a.example.com'', Backend = ''http://127.0.0.1:9000'', Type = ''http''\<rparr>"
  let ?b = "\<lparr>Hostname = ''b.example.com'', Backend = '':not-a-url'', Type = ''http''\<rparr>"
  let ?app = "\<lparr>fqdn = ''https://tobab.example.com'',
       config = \<lparr>Hostname_Config = ''tobab.example.com'', DefaultTokenAge = ''720h'',
                  MaxTokenAge = ''8760h''\<rparr>,
       effects = [], maxAge = 8760 * Hour, defaultAge = 720 * Hour,
       db_Tobab = \<lparr>db = [(''a.example.com'', ?a), (''b.example.com'', ?b)]\<rparr>,
       server = None\<rparr>"
  have hosts: "GetHosts (db_Tobab ?app) = ([?a, ?b], None)"
    by (simp add: GetHosts_def storm_All_def)
  have http: "\<forall>h \<in> set [?a, ?b]. Type h = ''http''"
    by simp
  have listen: "(\<lambda>domains. None)
        (Hostname_Config (config ?app) # map Hostname (filter backend_ok [?a, ?b])) = None"
    by simp
  from malformed_backend_skipped [of ?app "[?a, ?b]" "\<lambda>domains. None", OF hosts http listen]
  obtain app' srv where run: "startServer (\<lambda>domains. None) ?app = Inr app'"
    and srv: "server app' = Some srv"
    and routes: "map route_host (Handler srv) = [''a.example.com'', ''tobab.example.com'']"
    and logs: "Log ErrorLevel ''Failed creating proxy''
                   [WithError (Some (UrlError MissingProtocolScheme)),
                    WithField ''host'' ''b.example.com''] \<in> set (effects app')"
    by (auto simp: backend_ok_def url_Parse_loopback url_Parse_colon_first)
  have match: "Match (Handler srv) ''a.example.com'' ''/foo'' \<noteq> None
      \<and> Match (Handler srv) ''b.example.com'' ''/foo'' = None"
    using run srv
    by (auto simp: startServer_def GetHosts_def storm_All_def generateProxy_def
          url_Parse_loopback url_Parse_colon_first HasPrefix_def)
  show ?thesis
    using run srv routes logs match by simp
qed

subsection \<open>The forwarding handler\<close>

text \<open>
  C3, as the spec states it, fails for a request that already carries the header. The
  inbound request has \<open>X-Origin-Host: evil.example.com\<close>; the Director appends the virtual
  hostname behind it, and the first value of the header, the one \<^verbatim>\<open>Get\<close> returns, remains
  the one the client sent.
\<close>

theorem Director_sets_header_counterexample:
  "(case generateProxy ''app.example.com'' ''http://127.0.0.1:9000'' of
      Inl err \<Rightarrow> False
    | Inr proxy \<Rightarrow>
        Header (Director proxy
          \<lparr>Method = ''GET'', URL = zero_URL\<lparr>Path := ''/foo''\<rparr>, Host_Request = ''app.example.com'',
           Header = [''X-Origin-Host'' \<mapsto> [''evil.example.com'']], Body = []\<rparr>) ''X-Origin-Host''
          = Some [''evil.example.com'', ''app.example.com'']
        \<and> Header_Get (Header (Director proxy
          \<lparr>Method = ''GET'', URL = zero_URL\<lparr>Path := ''/foo''\<rparr>, Host_Request = ''app.example.com'',
           Header = [''X-Origin-Host'' \<mapsto> [''evil.example.com'']], Body = []\<rparr>)) ''X-Origin-Host''
          = ''evil.example.com'')"
  by (simp add: generateProxy_def url_Parse_loopback Header_Add_def Header_Get_def)

text \<open>
  C3, amended. For every request, the Director of the handler that \<^verbatim>\<open>generateProxy\<close>
  builds keeps method, path, query and body, overwrites the outbound Host (and the host
  and scheme of the request URL) with those of the backend URL, and appends the backend's
  hostname to the values of \<open>X-Forwarded-Host\<close> and the virtual hostname to the values of
  \<open>X-Origin-Host\<close>. When the inbound request carries no value of such a header, the header
  reads exactly the appended value. No other header changes.
\<close>

theorem Director_forwarding:
  assumes "url_Parse backend = Inr url"
  shows "\<exists>proxy. generateProxy host backend = Inr proxy
    \<and> Method (Director proxy req) = Method req
    \<and> Path (URL (Director proxy req)) = Path (URL req)
    \<and> RawQuery (URL (Director proxy req)) = RawQuery (URL req)
    \<and> Body (Director proxy req) = Body req
    \<and> Host_Request (Director proxy req) = Host url
    \<and> Host (URL (Director proxy req)) = Host url
    \<and> Scheme (URL (Director proxy req)) = Scheme url
    \<and> Header_Values (Header (Director proxy req)) ''X-Forwarded-Host''
        = Header_Values (Header req) ''X-Forwarded-Host'' @ [url_Hostname url]
    \<and> Header_Values (Header (Director proxy req)) ''X-Origin-Host''
        = Header_Values (Header req) ''X-Origin-Host'' @ [host]
    \<and> (Header_Values (Header req) ''X-Forwarded-Host'' = [] \<longrightarrow>
          Header_Get (Header (Director proxy req)) ''X-Forwarded-Host'' = url_Hostname url)
    \<and> (Header_Values (Header req) ''X-Origin-Host'' = [] \<longrightarrow>
          Header_Get (Header (Director proxy req)) ''X-Origin-Host'' = host)
    \<and> (\<forall>key. key \<noteq> ''X-Forwarded-Host'' \<and> key \<noteq> ''X-Origin-Host'' \<longrightarrow>
          Header (Director proxy req) key = Header req key)"
  using assms
  by (simp add: generateProxy_def Header_Add_def Header_Get_def Header_Values_def Let_def
        split: option.splits)

theorem Director_forwarding_witness:
  "url_Parse ''http://127.0.0.1:9000''
     = Inr (zero_URL\<lparr>Scheme := ''http'', Host := ''127.0.0.1:9000''\<rparr>)
   \<and> (\<exists>proxy. generateProxy ''app.example.com'' ''http://127.0.0.1:9000'' = Inr proxy
        \<and> Path (URL (Director proxy
              \<lparr>Method = ''GET'', URL = zero_URL\<lparr>Path := ''/foo''\<rparr>,
               Host_Request = ''app.example.com'', Header = Map.empty, Body = []\<rparr>)) = ''/foo''
        \<and> Host_Request (Director proxy
              \<lparr>Method = ''GET'', URL = zero_URL\<lparr>Path := ''/foo''\<rparr>,
               Host_Request = ''app.example.com'', Header = Map.empty, Body = []\<rparr>)
            = ''127.0.0.1:9000''
        \<and> Header_Get (Header (Director proxy
              \<lparr>Method = ''GET'', URL = zero_URL\<lparr>Path := ''/foo''\<rparr>,
               Host_Request = ''app.example.com'', Header = Map.empty, Body = []\<rparr>))
              ''X-Origin-Host'' = ''app.example.com'')"
proof -
  let ?req = "\<lparr>Method = ''GET'', URL = zero_URL\<lparr>Path := ''/foo''\<rparr>,
                Host_Request = ''app.example.com'', Header = Map.empty, Body = []\<rparr>"
  let ?url = "zero_URL\<lparr>Scheme := ''http'', Host := ''127.0.0.1:9000''\<rparr>"
  from Director_forwarding [OF url_Parse_loopback, of "''app.example.com''" ?req]
  obtain proxy where proxy: "generateProxy ''app.example.com'' ''http://127.0.0.1:9000'' = Inr proxy"
    and path: "Path (URL (Director proxy ?req)) = Path (URL ?req)"
    and hst: "Host_Request (Director proxy ?req) = Host ?url"
    and xo: "Header_Values (Header ?req) ''X-Origin-Host'' = [] \<longrightarrow>
          Header_Get (Header (Director proxy ?req)) ''X-Origin-Host'' = ''app.example.com''"
    by blast
  from path have path': "Path (URL (Director proxy ?req)) = ''/foo''"
    by simp
  from hst have hst': "Host_Request (Director proxy ?req) = ''127.0.0.1:9000''"
    by simp
  from xo have xo': "Header_Get (Header (Director proxy ?req)) ''X-Origin-Host'' = ''app.example.com''"
    by (simp add: Header_Values_def)
  from proxy path' hst' xo' url_Parse_loopback show ?thesis
    by blast
qed

subsection \<open>Reloads\<close>





subsection \<open>Boot and interrupt\<close>

text \<open>
  C9. The default token lifetime is the duration parsed from the configured value when
  that value parses, and 720 hours when it does not; the maximum token lifetime is the
  duration parsed from its configured value when that parses, and 24 * 365 hours when it
  does not.
\<close>

theorem run_app_ages:
  "defaultAge (run_app ParseDuration cfg database)
     = (case ParseDuration (DefaultTokenAge cfg) of Inl err \<Rightarrow> 720 * Hour | Inr age \<Rightarrow> age)
   \<and> maxAge (run_app ParseDuration cfg database)
     = (case ParseDuration (MaxTokenAge cfg) of Inl err \<Rightarrow> 24 * 365 * Hour | Inr age \<Rightarrow> age)"
  by (simp add: run_app_def Let_def split: sum.splits)

text \<open>
  C6. The interrupt arrives while a server is live. \<^verbatim>\<open>run\<close> logs ``shutting down'',
  closes the database and returns: the live server is never shut down, neither with a
  grace period nor without. \<^verbatim>\<open>restartServer\<close>, in the same state, does shut the
  server down with a timeout of one minute.
\<close>

theorem run_interrupt_no_Shutdown:
  "effects (run_interrupt
      \<lparr>fqdn = ''https://tobab.example.com'',
       config = \<lparr>Hostname_Config = ''tobab.example.com'', DefaultTokenAge = ''720h'',
                  MaxTokenAge = ''8760h''\<rparr>,
       effects = [], maxAge = 8760 * Hour, defaultAge = 720 * Hour, db_Tobab = \<lparr>db = []\<rparr>,
       server = Some \<lparr>Handler = [], WriteTimeout = 15 * Second, ReadTimeout = 15 * Second,
                       IdleTimeout = 60 * Second\<rparr>\<rparr>)
     = [Log InfoLevel ''shutting down'' [], Close]
   \<and> map_option effects (restartServer None
      \<lparr>fqdn = ''https://tobab.example.com'',
       config = \<lparr>Hostname_Config = ''tobab.example.com'', DefaultTokenAge = ''720h'',
                  MaxTokenAge = ''8760h''\<rparr>,
       effects = [], maxAge = 8760 * Hour, defaultAge = 720 * Hour, db_Tobab = \<lparr>db = []\<rparr>,
       server = Some \<lparr>Handler = [], WriteTimeout = 15 * Second, ReadTimeout = 15 * Second,
                       IdleTimeout = 60 * Second\<rparr>\<rparr>)
     = Some [Log InfoLevel ''shutting down server'' [], Shutdown (1 * Minute),
             Log InfoLevel ''server was shut down'' [WithError None], Go ''startServer'']"
  by (simp add: run_interrupt_def restartServer_def)

end
